theory Spec2Isabelle
  imports Complex_Main "HOL-Library.Sublist" "HOL-Library.Log_Nat"
begin

section \<open>Python dictionaries and numbers\<close>

text \<open>
  The modules pass patient data around as Python dictionaries keyed by strings.  A
  dictionary is a partial map; \<open>d.get(k, dflt)\<close> is \<open>dict_get d k dflt\<close>.
  Vital signs are integers (the telemetry simulator draws them with \<open>random.randint\<close>),
  symptom flags are booleans, and the numeric fields of a score dictionary are rationals
  (exact arithmetic stands for Python's numbers).
\<close>

definition dict_get :: "('k \<rightharpoonup> 'v) \<Rightarrow> 'k \<Rightarrow> 'v \<Rightarrow> 'v" where
  "dict_get d k dflt = (case d k of None \<Rightarrow> dflt | Some v \<Rightarrow> v)"

type_synonym vitals = "string \<rightharpoonup> int"
type_synonym symptoms = "string \<rightharpoonup> bool"
type_synonym score_dict = "string \<rightharpoonup> rat"
type_synonym scores = "string \<rightharpoonup> score_dict"

text \<open>\<open>symptoms.get(k)\<close> used as a condition: a missing key gives \<open>None\<close>, which is falsy.\<close>

definition truthy_get :: "symptoms \<Rightarrow> string \<Rightarrow> bool" where
  "truthy_get d k = (case d k of None \<Rightarrow> False | Some b \<Rightarrow> b)"

section \<open>ai\_triage.py: AITriagePredictor\<close>

datatype color = Red | Orange | Yellow | Green

record severity_result =
  score :: int
  level :: string
  priority :: string
  color :: color
  contributing_factors :: "string list"

text \<open>
  The rules of \<open>predict_severity\<close> all have the shape
  \<open>severity_score += pts; factors.append(label)\<close> on the running pair
  \<open>(severity_score, factors)\<close>.
\<close>

definition add_factor :: "int \<Rightarrow> string \<Rightarrow> int \<times> string list \<Rightarrow> int \<times> string list" where
  "add_factor pts label st = (fst st + pts, snd st @ [label])"

text \<open>The rules of \<open>predict_severity\<close>, one definition for each \<open>if\<close> block of the source.\<close>

type_synonym acc = "int \<times> string list"

definition heart_rate_rule :: "vitals \<Rightarrow> acc \<Rightarrow> acc" where
  "heart_rate_rule vitals st =
    (let hr = dict_get vitals ''heart_rate'' 70
     in if hr > 120 \<or> hr < 50 then add_factor 15 ''Abnormal Heart Rate'' st else st)"

definition spo2_rule :: "vitals \<Rightarrow> acc \<Rightarrow> acc" where
  "spo2_rule vitals st =
    (let spo2 = dict_get vitals ''spo2'' 98
     in if spo2 < 90 then add_factor 20 ''Critical Hypoxia'' st
        else if spo2 < 94 then add_factor 10 ''Moderate Hypoxia'' st
        else st)"

definition sbp_rule :: "vitals \<Rightarrow> acc \<Rightarrow> acc" where
  "sbp_rule vitals st =
    (let sbp = dict_get vitals ''blood_pressure_systolic'' 120
     in if sbp < 90 then add_factor 20 ''Hypotension/Shock'' st else st)"

definition gcs_rule :: "vitals \<Rightarrow> acc \<Rightarrow> acc" where
  "gcs_rule vitals st =
    (let gcs = dict_get vitals ''gcs'' 15
     in if gcs < 9 then add_factor 25 ''Severely Altered Mental Status'' st
        else if gcs < 13 then add_factor 15 ''Altered Mental Status'' st
        else st)"

definition chest_pain_rule :: "symptoms \<Rightarrow> acc \<Rightarrow> acc" where
  "chest_pain_rule symptoms st =
    (if truthy_get symptoms ''chest_pain'' then add_factor 10 ''Chest Pain'' st else st)"

definition st_elevation_rule :: "symptoms \<Rightarrow> acc \<Rightarrow> acc" where
  "st_elevation_rule symptoms st =
    (if truthy_get symptoms ''st_elevation'' then add_factor 15 ''ST Elevation'' st else st)"

definition shock_index_rule :: "scores \<Rightarrow> acc \<Rightarrow> acc" where
  "shock_index_rule scores st =
    (let shock_index = dict_get (dict_get scores ''shock_index'' Map.empty) ''value'' (7 / 10)
     in if shock_index > 1 then add_factor 15 ''Shock State'' st else st)"

text \<open>The level, priority and colour of a capped score.\<close>

definition severity_level :: "int \<Rightarrow> string \<times> string \<times> color" where
  "severity_level severity_score =
    (if severity_score \<ge> 75 then (''CRITICAL'', ''Resuscitation'', Red)
     else if severity_score \<ge> 50 then (''EMERGENT'', ''Immediate'', Orange)
     else if severity_score \<ge> 25 then (''URGENT'', ''Within 30 min'', Yellow)
     else (''NON-EMERGENT'', ''Standard'', Green))"

text \<open>
  \<open>predict_severity\<close>: the running pair starts at \<open>(0, [])\<close> and goes through the rules
  in the order of the source; then the score is capped and mapped to a level.
\<close>

definition predict_severity :: "vitals \<Rightarrow> symptoms \<Rightarrow> scores \<Rightarrow> severity_result" where
  "predict_severity vitals symptoms scores =
    (let st = shock_index_rule scores (st_elevation_rule symptoms (chest_pain_rule symptoms
                (gcs_rule vitals (sbp_rule vitals (spo2_rule vitals
                  (heart_rate_rule vitals (0, [])))))));
         severity_score = min (fst st) 100;
         lpc = severity_level severity_score
     in \<lparr>score = severity_score, level = fst lpc, priority = fst (snd lpc),
         color = snd (snd lpc), contributing_factors = snd st\<rparr>)"

text \<open>
  \<open>predict_active_alerts\<close>: the list \<open>alerts\<close> grows by \<open>append\<close> in the order of the
  five checks.
\<close>

definition predict_active_alerts :: "vitals \<Rightarrow> symptoms \<Rightarrow> scores \<Rightarrow> string list" where
  "predict_active_alerts vitals symptoms scores =
    (let alerts0 = [] :: string list;
         stemi_score = dict_get (dict_get scores ''stemi_checklist'' Map.empty) ''score'' 0;
         alerts1 = (if stemi_score \<ge> 3 then alerts0 @ [''STEMI''] else alerts0);
         nihss = dict_get (dict_get scores ''nihss'' Map.empty) ''score'' 0;
         alerts2 = (if nihss > 7 then alerts1 @ [''STROKE''] else alerts1);
         trauma_score = dict_get (dict_get scores ''trauma_score'' Map.empty) ''score'' 7;
         alerts3 = (if trauma_score < 5 then alerts2 @ [''TRAUMA''] else alerts2);
         qsofa = dict_get (dict_get scores ''qsofa'' Map.empty) ''score'' 0;
         alerts4 = (if qsofa \<ge> 2 then alerts3 @ [''SEPSIS''] else alerts3);
         gcs = dict_get vitals ''gcs'' 15;
         sbp = dict_get vitals ''blood_pressure_systolic'' 120;
         spo2 = dict_get vitals ''spo2'' 98
     in if gcs < 5 \<and> (sbp < 70 \<or> spo2 < 80)
        then alerts4 @ [''CARDIAC_ARREST_RISK''] else alerts4)"

section \<open>clinical\_scoring.py: ClinicalScorer\<close>

text \<open>The exceptions the modelled functions can raise.\<close>

datatype py_error = KeyError | ZeroDivisionError | OverflowError

text \<open>\<open>d[k]\<close>: a missing key raises \<open>KeyError\<close>.\<close>

definition dict_item :: "('k \<rightharpoonup> 'v) \<Rightarrow> 'k \<Rightarrow> py_error + 'v" where
  "dict_item d k = (case d k of None \<Rightarrow> Inl KeyError | Some v \<Rightarrow> Inr v)"

text \<open>
  A Python float is an IEEE 754 double.  A finite double is modelled by the rational
  number it denotes, and an operation on floats by the exact result rounded to the
  nearest double, a tie going to the even significand.
\<close>

definition pow2 :: "int \<Rightarrow> rat" where
  "pow2 k = (if 0 \<le> k then 2 ^ nat k else 1 / 2 ^ nat (- k))"

text \<open>The nearest integer, a tie going to the even one.\<close>

definition round_half_even :: "rat \<Rightarrow> int" where
  "round_half_even y =
    (let f = \<lfloor>y\<rfloor>; d = y - of_int f
     in if d < 1 / 2 then f else if d > 1 / 2 then f + 1 else if even f then f else f + 1)"

text \<open>For \<open>a > 0\<close>, the exponent \<open>e\<close> with \<open>2 ^ e \<le> a < 2 ^ (e + 1)\<close>.\<close>

definition ilog2 :: "rat \<Rightarrow> int" where
  "ilog2 a =
    (let (n, d) = quotient_of a;
         k = bitlen n - bitlen d
     in if pow2 k \<le> a then k else k - 1)"

text \<open>The least magnitude that no longer rounds to a finite double.\<close>

definition float_overflow :: rat where
  "float_overflow = pow2 1024"

text \<open>
  The double nearest to a rational: 53 significant bits, exponents from -1022 (below
  that the spacing stays \<open>2 ^ -1074\<close>), and no double from \<open>2 ^ 1024\<close> on.
\<close>

definition to_double :: "rat \<Rightarrow> rat option" where
  "to_double q =
    (if q = 0 then Some 0
     else let a = \<bar>q\<bar>;
              e = max (ilog2 a) (- 1022);
              ulp = pow2 (e - 52);
              r = of_int (round_half_even (a / ulp)) * ulp
          in if float_overflow \<le> r then None else Some (sgn q * r))"

text \<open>A float literal of the source, such as \<open>0.9\<close>.\<close>

definition float_lit :: "rat \<Rightarrow> rat" where
  "float_lit q = the (to_double q)"

text \<open>
  \<open>a / b\<close> on integers: \<open>ZeroDivisionError\<close> on a zero divisor, the correctly rounded
  quotient otherwise, \<open>OverflowError\<close> when that is too large for a float.
\<close>

definition int_truediv :: "int \<Rightarrow> int \<Rightarrow> py_error + rat" where
  "int_truediv a b =
    (if b = 0 then Inl ZeroDivisionError
     else case to_double (of_int a / of_int b) of
            None \<Rightarrow> Inl OverflowError
          | Some x \<Rightarrow> Inr x)"

text \<open>
  \<open>round(x, 2)\<close> on a float: the decimal with two places nearest to the exact value of
  \<open>x\<close> (a tie going to the even digit), converted back to a float.
\<close>

definition py_round2 :: "rat \<Rightarrow> py_error + rat" where
  "py_round2 x =
    (case to_double (of_int (round_half_even (x * 100)) / 100) of
       None \<Rightarrow> Inl OverflowError
     | Some y \<Rightarrow> Inr y)"

record shock_result =
  shock_value :: rat
  shock_interpretation :: string
  shock_normal_range :: string
  shock_recommendation :: string

definition calculate_shock_index :: "vitals \<Rightarrow> py_error + shock_result" where
  "calculate_shock_index vitals =
    (let hr = dict_get vitals ''heart_rate'' 70;
         sbp0 = dict_get vitals ''blood_pressure_systolic'' 120;
         sbp = (if sbp0 = 0 then 1 else sbp0)
     in case int_truediv hr sbp of
          Inl e \<Rightarrow> Inl e
        | Inr shock_index \<Rightarrow>
            let interpretation =
                  (if shock_index > float_lit 1 then ''Shock State''
                   else if shock_index > float_lit (9 / 10) then ''Pre-Shock / Compensated''
                   else ''Normal'')
            in case py_round2 shock_index of
                 Inl e \<Rightarrow> Inl e
               | Inr v \<Rightarrow>
                   Inr \<lparr>shock_value = v,
                        shock_interpretation = interpretation,
                        shock_normal_range = ''0.5-0.7'',
                        shock_recommendation =
                          (if shock_index > float_lit 1 then ''Immediate Resuscitation''
                           else ''Monitor'')\<rparr>)"




section \<open>emt\_voice\_simulator.py: EMTVoiceSimulator\<close>

text \<open>
  The simulator object: the attributes set by \<open>__init__\<close>.  The two note lists are
  built there from f-strings over the name attributes.  The cursor
  \<open>current_note_index\<close> starts at 0 and is only ever incremented, so it is a natural
  number.
\<close>

record simulator =
  scenario :: string
  ambulance_id :: string
  patient_id :: string
  emt_name :: string
  patient_name :: string
  patient_ssn :: string
  eta_minutes :: int
  mi_scenario_notes :: "string list"
  trauma_scenario_notes :: "string list"
  current_note_index :: nat

definition init_simulator :: "string \<Rightarrow> simulator" where
  "init_simulator scn =
    (let amb = ''AMB-001''; emt = ''John Smith''; pat = ''Sarah Johnson''; ssn = ''123-45-6789''
     in \<lparr>scenario = scn, ambulance_id = amb, patient_id = ''P-2024-001'',
         emt_name = emt, patient_name = pat, patient_ssn = ssn, eta_minutes = 8,
         mi_scenario_notes =
          [''This is EMT '' @ emt @ '' from ambulance '' @ amb
             @ ''. We have a 58-year-old female patient '' @ pat @ '', SSN '' @ ssn
             @ '', presenting with severe chest pain radiating to the left arm. Patient reports history of angina and hypertension. ETA 8 minutes.'',
           ''Update on patient '' @ pat
             @ ''. Chest pain started approximately 45 minutes ago. Patient describes it as crushing pressure. Administered aspirin 325mg and started oxygen at 4L. Vitals show tachycardia and hypotension.'',
           ''Patient is experiencing diaphoresis and nausea. Strong suspicion of myocardial infarction. Patient states her father died of heart attack at age 62. Currently on nitroglycerin from personal medication. Request cardiology team standby.'',
           ''ETA now 4 minutes. Patient '' @ pat
             @ '' remains conscious but in significant distress. Pain level 8 out of 10. ST elevation noted on 12-lead ECG. This appears to be an acute MI. Recommend immediate catheter lab prep.'',
           ''Two minutes out. Patient condition stable but critical. Nitroglycerin providing minimal relief. IV established. All documentation will be transferred upon arrival. Catheter lab should be ready.''],
         trauma_scenario_notes =
          [''EMT '' @ emt @ '' reporting. Motor vehicle collision victim, '' @ pat @ '', SSN '' @ ssn
             @ ''. Multiple trauma, suspected internal bleeding. Patient is semi-conscious. ETA 10 minutes.'',
           ''Patient has visible trauma to chest and abdomen. Possible rib fractures. Blood pressure dropping. Started two large bore IVs with normal saline. Rapid transport initiated.'',
           ''Update: Patient becoming more unstable. Signs of shock developing. Increased fluid resuscitation. Surgery team should be notified immediately. ETA 5 minutes.''],
         current_note_index = 0\<rparr>)"

definition get_scenario_notes :: "simulator \<Rightarrow> string list" where
  "get_scenario_notes self =
    (if scenario self = ''mi_patient'' then mi_scenario_notes self
     else if scenario self = ''trauma'' then trauma_scenario_notes self
     else mi_scenario_notes self)"

text \<open>
  The dictionary \<open>generate_voice_note\<close> returns, without its \<open>timestamp\<close> (the wall
  clock at the time of the call).
\<close>

record voice_note =
  vn_ambulance_id :: string
  vn_patient_id :: string
  vn_emt_name :: string
  vn_voice_note :: string
  vn_note_type :: string
  vn_eta_minutes :: int

definition final_note :: "simulator \<Rightarrow> string" where
  "final_note self =
    ''Final update: Arriving at hospital now. Patient '' @ patient_name self
      @ '' ready for immediate transfer to ER team.''"

text \<open>One call: the returned dictionary and the simulator after the call.\<close>

definition generate_voice_note :: "simulator \<Rightarrow> voice_note \<times> simulator" where
  "generate_voice_note self =
    (let notes = get_scenario_notes self;
         (note_text, self') =
           (if current_note_index self \<ge> length notes then (final_note self, self)
            else (notes ! current_note_index self,
                  self\<lparr>current_note_index := current_note_index self + 1\<rparr>))
     in (\<lparr>vn_ambulance_id = ambulance_id self', vn_patient_id = patient_id self',
          vn_emt_name = emt_name self', vn_voice_note = note_text,
          vn_note_type = ''voice_transcription'',
          vn_eta_minutes = max 0 (eta_minutes self' - int (current_note_index self') * 2)\<rparr>,
         self'))"

text \<open>
  A call sequence: the simulator after \<open>n\<close> calls, and the dictionary the call number
  \<open>n\<close> (counted from 0) returns.
\<close>

fun after_calls :: "nat \<Rightarrow> simulator \<Rightarrow> simulator" where
  "after_calls 0 self = self"
| "after_calls (Suc n) self = after_calls n (snd (generate_voice_note self))"

definition nth_call :: "nat \<Rightarrow> simulator \<Rightarrow> voice_note" where
  "nth_call n self = fst (generate_voice_note (after_calls n self))"

section \<open>advanced\_clinical\_dashboard.py: the resource pool\<close>

text \<open>
  \<open>st.session_state.hospital_resources\<close> is a dictionary of counters, each a
  dictionary with the key \<open>available\<close> (and \<open>total\<close> for most).  The function updates
  it in place; here it takes the pool and returns the updated one.
\<close>

type_synonym pool = "string \<rightharpoonup> (string \<rightharpoonup> int)"

record patient_data =
  pd_predictions :: "(string \<rightharpoonup> symptoms) option"
  pd_active_alerts :: "string list option"

definition get_available :: "pool \<Rightarrow> string \<Rightarrow> py_error + int" where
  "get_available resources k =
    (case dict_item resources k of Inl e \<Rightarrow> Inl e | Inr c \<Rightarrow> dict_item c ''available'')"

text \<open>
  \<open>resources[k]['available'] -= n\<close>.  The pool is mutated in place, so a step gives
  the pool as it stands afterwards together with the exception raised, if any.
\<close>

definition sub_available :: "pool \<Rightarrow> string \<Rightarrow> int \<Rightarrow> py_error option \<times> pool" where
  "sub_available resources k n =
    (case dict_item resources k of
       Inl e \<Rightarrow> (Some e, resources)
     | Inr c \<Rightarrow>
         (case dict_item c ''available'' of
            Inl e \<Rightarrow> (Some e, resources)
          | Inr a \<Rightarrow> (None, resources(k \<mapsto> c(''available'' \<mapsto> a - n)))))"

text \<open>
  \<open>if cond and resources[k]['available'] > 0: resources[k]['available'] -= 1\<close>;
  the subscript is not evaluated when \<open>cond\<close> is false.
\<close>

definition consume :: "bool \<Rightarrow> string \<Rightarrow> pool \<Rightarrow> py_error option \<times> pool" where
  "consume cond k resources =
    (if cond then
       (case get_available resources k of
          Inl e \<Rightarrow> (Some e, resources)
        | Inr a \<Rightarrow> if a > 0 then sub_available resources k 1 else (None, resources))
     else (None, resources))"

text \<open>Statements in sequence: an exception ends the function, the pool stays as it is.\<close>

definition and_then ::
  "py_error option \<times> pool \<Rightarrow> (pool \<Rightarrow> py_error option \<times> pool) \<Rightarrow> py_error option \<times> pool" where
  "and_then st f = (case st of (Some e, r) \<Rightarrow> (Some e, r) | (None, r) \<Rightarrow> f r)"

definition update_hospital_resources :: "pool \<Rightarrow> patient_data \<Rightarrow> py_error option \<times> pool" where
  "update_hospital_resources resources pd =
    (let predictions =
           dict_get (case pd_predictions pd of None \<Rightarrow> Map.empty | Some d \<Rightarrow> d)
             ''predictions'' Map.empty;
         active_alerts = (case pd_active_alerts pd of None \<Rightarrow> [] | Some l \<Rightarrow> l)
     in and_then (and_then (and_then (and_then
          (consume (truthy_get predictions ''needs_icu'') ''icu_beds'' resources)
          (consume (truthy_get predictions ''needs_intubation'') ''ventilators''))
          (consume (truthy_get predictions ''needs_or'') ''or_rooms''))
          (consume (''STROKE'' \<in> set active_alerts \<or> ''TRAUMA'' \<in> set active_alerts)
             ''ct_scanner''))
          (\<lambda>r. if ''TRAUMA'' \<in> set active_alerts then
                 (case get_available r ''blood_units_o_neg'' of
                    Inl e \<Rightarrow> (Some e, r)
                  | Inr a \<Rightarrow>
                      if a \<ge> 2 then sub_available r ''blood_units_o_neg'' 2 else (None, r))
               else (None, r)))"

text \<open>The \<open>available\<close> value of counter \<open>k\<close>, if the pool has one.\<close>

definition available :: "pool \<Rightarrow> string \<Rightarrow> int option" where
  "available resources k = (case resources k of None \<Rightarrow> None | Some c \<Rightarrow> c ''available'')"

text \<open>The pool \<open>initialize_session_state\<close> creates.\<close>

definition hospital_resources :: pool where
  "hospital_resources =
    [''icu_beds'' \<mapsto> [''total'' \<mapsto> 12, ''available'' \<mapsto> 8],
     ''ct_scanner'' \<mapsto> [''total'' \<mapsto> 2, ''available'' \<mapsto> 1],
     ''mri_scanner'' \<mapsto> [''total'' \<mapsto> 1, ''available'' \<mapsto> 1],
     ''or_rooms'' \<mapsto> [''total'' \<mapsto> 6, ''available'' \<mapsto> 4],
     ''blood_units_o_neg'' \<mapsto> [''available'' \<mapsto> 25],
     ''blood_units_o_pos'' \<mapsto> [''available'' \<mapsto> 30],
     ''ventilators'' \<mapsto> [''total'' \<mapsto> 15, ''available'' \<mapsto> 10]]"

text \<open>What an update may do to the counters: lower them, never below zero.\<close>

definition lowers :: "pool \<Rightarrow> pool \<Rightarrow> bool" where
  "lowers r r' \<longleftrightarrow>
     (\<forall>k a. available r k = Some a \<longrightarrow>
        (\<exists>a'. available r' k = Some a' \<and> a' \<le> a \<and> (0 \<le> a \<longrightarrow> 0 \<le> a') \<and> (a = 0 \<longrightarrow> a' = 0)))"

section \<open>aparavi\_redactor.py: AparaviRedactor, PII detection\<close>

text \<open>
  \<open>self.pii_patterns\<close>: the five regular expressions as they are written in the
  source, in the order of the dictionary.  \<open>bs\<close> is the backslash.
\<close>

definition bs :: string where "bs = [CHR 0x5C]"

definition ssn_pattern :: string where
  "ssn_pattern = bs @ ''b'' @ bs @ ''d{3}-'' @ bs @ ''d{2}-'' @ bs @ ''d{4}'' @ bs @ ''b''"

definition phone_pattern :: string where
  "phone_pattern =
    bs @ ''b'' @ bs @ ''d{3}[-.]?'' @ bs @ ''d{3}[-.]?'' @ bs @ ''d{4}'' @ bs @ ''b''"

definition email_pattern :: string where
  "email_pattern =
    bs @ ''b[A-Za-z0-9._%+-]+@[A-Za-z0-9.-]+'' @ bs @ ''.[A-Z|a-z]{2,}'' @ bs @ ''b''"

definition name_pattern :: string where
  "name_pattern = bs @ ''b[A-Z][a-z]+ [A-Z][a-z]+'' @ bs @ ''b''"

definition address_pattern :: string where
  "address_pattern =
    bs @ ''b'' @ bs @ ''d{1,5}'' @ bs @ ''s'' @ bs @ ''w+'' @ bs
      @ ''s(Street|St|Avenue|Ave|Road|Rd|Boulevard|Blvd|Lane|Ln|Drive|Dr)'' @ bs @ ''b''"

definition pii_patterns :: "(string \<times> string) list" where
  "pii_patterns =
    [(''SSN'', ssn_pattern), (''PHONE'', phone_pattern), (''EMAIL'', email_pattern),
     (''NAME'', name_pattern), (''ADDRESS'', address_pattern)]"

text \<open>
  \<open>re.finditer(pattern, text)\<close> belongs to Python's library, not to this repository, and
  what it matches depends on the Unicode tables behind \<open>\b\<close>, \<open>\d\<close>, \<open>\s\<close> and
  \<open>\w\<close>.  The detection functions take it as a parameter: for a pattern and a text, the
  list of the start and end positions of the matches, from left to right.  A text is a
  list of characters of any type \<open>'c\<close>.
\<close>

type_synonym 'c re_finditer = "string \<Rightarrow> 'c list \<Rightarrow> (nat \<times> nat) list"

record 'c pii_entity =
  pii_type :: string
  pii_text :: "'c list"
  pii_start :: nat
  pii_end :: nat
  confidence :: rat

definition detect_pii_locally_with :: "'c re_finditer \<Rightarrow> 'c list \<Rightarrow> 'c pii_entity list" where
  "detect_pii_locally_with re_finditer text =
    concat (map (\<lambda>(ty, pattern).
        map (\<lambda>(b, e). \<lparr>pii_type = ty, pii_text = take (e - b) (drop b text),
                        pii_start = b, pii_end = e, confidence = 95 / 100\<rparr>)
            (re_finditer pattern text))
      pii_patterns)"

definition is_hipaa_compliant :: "'c re_finditer \<Rightarrow> 'c list \<Rightarrow> bool" where
  "is_hipaa_compliant re_finditer text =
    (\<not> list_ex (\<lambda>entity. pii_type entity \<in> set [''SSN'', ''PHONE'', ''EMAIL'']
                          \<and> confidence entity > 7 / 10)
         (detect_pii_locally_with re_finditer text))"

record 'c risk_analysis =
  risk_level :: string
  pii_count :: nat
  pii_types :: "string set"
  hipaa_compliant :: bool
  detected_entities :: "'c pii_entity list"

definition analyze_pii_risk :: "'c re_finditer \<Rightarrow> 'c list \<Rightarrow> 'c risk_analysis" where
  "analyze_pii_risk re_finditer text =
    (let detected_pii = detect_pii_locally_with re_finditer text;
         risk_level0 = ''LOW'';
         risk_level1 = (if length detected_pii > 0 then ''MEDIUM'' else risk_level0);
         risk_level2 = (if list_ex (\<lambda>e. pii_type e \<in> set [''SSN'', ''PHONE'']) detected_pii
                        then ''HIGH'' else risk_level1)
     in \<lparr>risk_level = risk_level2, pii_count = length detected_pii,
         pii_types = set (map pii_type detected_pii),
         hipaa_compliant = is_hipaa_compliant re_finditer text,
         detected_entities = detected_pii\<rparr>)"

text \<open>The matches of the pattern of PII type \<open>ty\<close> in a text.\<close>

definition matches :: "'c re_finditer \<Rightarrow> string \<Rightarrow> 'c list \<Rightarrow> (nat \<times> nat) list" where
  "matches re_finditer ty text =
    (case map_of pii_patterns ty of None \<Rightarrow> [] | Some pattern \<Rightarrow> re_finditer pattern text)"

section \<open>Regular expressions on ASCII text\<close>

text \<open>
  On ASCII text the matches can be computed.  The five patterns are built from character
  classes, greedy repetitions of a class, literal text, the word boundary \<open>\b\<close>, sequence
  and alternation, so that is the syntax modelled.  A class is the string of its ASCII
  members.
\<close>

datatype regex =
    Eps
  | Cls string
  | Rep string nat "nat option"
  | Lit string
  | Bnd
  | Seq regex regex
  | Alt regex regex

definition upper :: string where "upper = ''ABCDEFGHIJKLMNOPQRSTUVWXYZ''"
definition lower :: string where "lower = ''abcdefghijklmnopqrstuvwxyz''"
definition digit :: string where "digit = ''0123456789''"

text \<open>\<open>\w\<close> and \<open>\s\<close> on ASCII text.\<close>

definition word :: string where "word = upper @ lower @ digit @ ''_''"
definition space :: string where
  "space = [CHR 0x09, CHR 0x0A, CHR 0x0B, CHR 0x0C, CHR 0x0D,
            CHR 0x1C, CHR 0x1D, CHR 0x1E, CHR 0x1F, CHR 0x20]"

text \<open>
  \<open>\b\<close> at position \<open>i\<close>: exactly one of the characters before and after \<open>i\<close> is a
  word character, the outside of the text counting as none.
\<close>

definition word_at :: "string \<Rightarrow> nat \<Rightarrow> bool" where
  "word_at s i \<longleftrightarrow> i < length s \<and> s ! i \<in> set word"

definition word_boundary :: "string \<Rightarrow> nat \<Rightarrow> bool" where
  "word_boundary s i \<longleftrightarrow> (0 < i \<and> word_at s (i - 1)) \<noteq> word_at s i"

text \<open>
  \<open>ends r s i\<close>: the positions where a match of \<open>r\<close> that starts at \<open>i\<close> can end, in the
  order in which the backtracking matcher tries them; the first one is the match it
  reports.  A greedy repetition tries the longest run first.
\<close>

primrec ends :: "regex \<Rightarrow> string \<Rightarrow> nat \<Rightarrow> nat list" where
  "ends Eps s i = [i]"
| "ends (Cls c) s i = (if i < length s \<and> s ! i \<in> set c then [Suc i] else [])"
| "ends (Rep c lo hi) s i =
    (let run = length (takeWhile (\<lambda>x. x \<in> set c) (drop i s));
         k = (case hi of None \<Rightarrow> run | Some h \<Rightarrow> min h run)
     in map (\<lambda>n. i + n) (rev [lo ..< Suc k]))"
| "ends (Lit w) s i = (if take (length w) (drop i s) = w then [i + length w] else [])"
| "ends Bnd s i = (if word_boundary s i then [i] else [])"
| "ends (Seq r1 r2) s i = concat (map (ends r2 s) (ends r1 s i))"
| "ends (Alt r1 r2) s i = ends r1 s i @ ends r2 s i"

fun seqs :: "regex list \<Rightarrow> regex" where
  "seqs [] = Eps"
| "seqs (r # rs) = Seq r (seqs rs)"

fun alts :: "regex list \<Rightarrow> regex" where
  "alts [] = Cls []"
| "alts [r] = r"
| "alts (r # rs) = Alt r (alts rs)"

text \<open>The leftmost match at or after \<open>pos\<close>: its start and its end.\<close>

definition first_match :: "regex \<Rightarrow> string \<Rightarrow> nat \<Rightarrow> (nat \<times> nat) option" where
  "first_match r s pos =
    (case filter (\<lambda>p. ends r s p \<noteq> []) [pos ..< Suc (length s)] of
       [] \<Rightarrow> None
     | p # _ \<Rightarrow> Some (p, hd (ends r s p)))"

text \<open>
  \<open>re.finditer\<close>: the matches from left to right, each search starting where the last
  match ended (one further on after an empty match, which none of the patterns below has).
\<close>

function finditer :: "regex \<Rightarrow> string \<Rightarrow> nat \<Rightarrow> (nat \<times> nat) list" where
  "finditer r s pos =
    (case first_match r s pos of
       None \<Rightarrow> []
     | Some (p, e) \<Rightarrow> (p, e) # finditer r s (if p < e then e else Suc p))"
  by pat_completeness auto
termination
proof (relation "measure (\<lambda>(r, s, pos). Suc (length s) - pos)")
  show "wf (measure (\<lambda>(r, s, pos). Suc (length s) - pos))"
    by simp
next
  fix r :: regex and s :: string and pos :: nat and x2 :: "nat \<times> nat" and x y :: nat
  assume m: "first_match r s pos = Some x2" and xy: "(x, y) = x2"
  from m xy obtain ps where "filter (\<lambda>p. ends r s p \<noteq> []) [pos ..< Suc (length s)] = x # ps"
    by (auto simp: first_match_def split: list.splits)
  then have "x \<in> set (filter (\<lambda>p. ends r s p \<noteq> []) [pos ..< Suc (length s)])"
    by simp
  then have "pos \<le> x" and "x \<le> length s"
    by auto
  then show "((r, s, if x < y then y else Suc x), r, s, pos)
      \<in> measure (\<lambda>(r, s, pos). Suc (length s) - pos)"
    by auto
qed

text \<open>The five patterns compiled: each source with its syntax tree.\<close>

definition compiled :: "(string \<times> regex) list" where
  "compiled =
    [(ssn_pattern,
      seqs [Bnd, Rep digit 3 (Some 3), Lit ''-'', Rep digit 2 (Some 2), Lit ''-'',
            Rep digit 4 (Some 4), Bnd]),
     (phone_pattern,
      seqs [Bnd, Rep digit 3 (Some 3), Rep ''-.'' 0 (Some 1), Rep digit 3 (Some 3),
            Rep ''-.'' 0 (Some 1), Rep digit 4 (Some 4), Bnd]),
     (email_pattern,
      seqs [Bnd, Rep (upper @ lower @ digit @ ''._%+-'') 1 None, Lit ''@'',
            Rep (upper @ lower @ digit @ ''.-'') 1 None, Lit ''.'',
            Rep (upper @ ''|'' @ lower) 2 None, Bnd]),
     (name_pattern,
      seqs [Bnd, Cls upper, Rep lower 1 None, Lit '' '', Cls upper, Rep lower 1 None, Bnd]),
     (address_pattern,
      seqs [Bnd, Rep digit 1 (Some 5), Cls space, Rep word 1 None, Cls space,
            alts [Lit ''Street'', Lit ''St'', Lit ''Avenue'', Lit ''Ave'', Lit ''Road'',
                  Lit ''Rd'', Lit ''Boulevard'', Lit ''Blvd'', Lit ''Lane'', Lit ''Ln'',
                  Lit ''Drive'', Lit ''Dr''],
            Bnd])]"

text \<open>\<open>re.finditer\<close> for these patterns on ASCII text.\<close>

definition re_finditer_ascii :: "char re_finditer" where
  "re_finditer_ascii pattern text =
    (case map_of compiled pattern of None \<Rightarrow> [] | Some r \<Rightarrow> finditer r text 0)"

section \<open>aparavi\_redactor.py: AparaviRedactor, redaction\<close>

text \<open>The redaction functions are modelled on ASCII text, where the matches are computed.\<close>

definition detect_pii_locally :: "string \<Rightarrow> char pii_entity list" where
  "detect_pii_locally text = detect_pii_locally_with re_finditer_ascii text"

definition get_replacement :: "string \<Rightarrow> string" where
  "get_replacement ty =
    dict_get [''SSN'' \<mapsto> ''[SSN-REDACTED]'', ''PHONE'' \<mapsto> ''[PHONE]'', ''EMAIL'' \<mapsto> ''[EMAIL]'',
              ''NAME'' \<mapsto> ''[PATIENT]'', ''ADDRESS'' \<mapsto> ''[LOCATION]''] ty ''[REDACTED]''"

text \<open>
  \<open>redact_text\<close>: the entities are sorted by start position, last first (the sort is
  stable), and each span is replaced in that order.
\<close>

definition replace_span :: "string \<Rightarrow> char pii_entity \<Rightarrow> string" where
  "replace_span redacted_text entity =
    take (pii_start entity) redacted_text @ get_replacement (pii_type entity)
      @ drop (pii_end entity) redacted_text"

definition redact_text :: "string \<Rightarrow> string" where
  "redact_text text =
    (if text = [] then text
     else foldl replace_span text
            (sort_key (\<lambda>x. - int (pii_start x)) (detect_pii_locally text)))"

text \<open>
  The placeholder tokens, white space and the ASCII punctuation.  A piece of a redacted
  text is a placeholder token or one separator character out of \<open>seps\<close>; the text of a
  list of pieces is their concatenation.
\<close>

definition placeholders :: "string list" where
  "placeholders =
    [''[SSN-REDACTED]'', ''[PHONE]'', ''[EMAIL]'', ''[PATIENT]'', ''[LOCATION]'', ''[REDACTED]'']"

definition punctuation :: string where
  "punctuation =
    ''!#$%&()*+,-./:;<=>?@[]^_{|}~'' @ [CHR 0x22, CHR 0x27, CHR 0x5C, CHR 0x60]"

definition piece :: "string \<Rightarrow> string \<Rightarrow> bool" where
  "piece seps p \<longleftrightarrow> p \<in> set placeholders \<or> (length p = 1 \<and> hd p \<in> set seps)"

section \<open>redact\_dict of AparaviRedactor and PIIRedactor\<close>

text \<open>
  \<open>redact_dict\<close> copies the dictionary it is given and assigns to keys of the copy, so
  dictionaries are objects in a store here: a store is the list of its dictionaries and
  a reference is an index into it.  Values are strings, other scalars, or references.
\<close>

datatype pyval = PStr string | PInt int | PBool bool | PNone | PRef nat

type_synonym pydict = "string \<rightharpoonup> pyval"
type_synonym store = "pydict list"

text \<open>\<open>data.copy()\<close>: a new dictionary with the same items.\<close>

definition dict_copy :: "store \<Rightarrow> nat \<Rightarrow> store \<times> nat" where
  "dict_copy h a = (h @ [h ! a], length h)"

text \<open>\<open>d[k] = v\<close> on the dictionary at reference \<open>a\<close>.\<close>

definition dict_setitem :: "store \<Rightarrow> nat \<Rightarrow> string \<Rightarrow> pyval \<Rightarrow> store" where
  "dict_setitem h a k v = h[a := (h ! a)(k \<mapsto> v)]"

text \<open>
  The loop over \<open>text_fields\<close>:
  \<open>if field in redacted_data and isinstance(redacted_data[field], str)\<close>.
\<close>

fun redact_fields :: "(string \<Rightarrow> string) \<Rightarrow> string list \<Rightarrow> store \<Rightarrow> nat \<Rightarrow> store" where
  "redact_fields redact [] h rd = h"
| "redact_fields redact (field # text_fields) h rd =
    redact_fields redact text_fields
      (case (h ! rd) field of
         Some (PStr s) \<Rightarrow> dict_setitem h rd field (PStr (redact s))
       | _ \<Rightarrow> h)
      rd"

text \<open>
  The two classes have the same \<open>redact_dict\<close> but for the list of text fields and the
  \<open>redact_text\<close> it calls.  It returns the store afterwards and the reference to the
  redacted copy.
\<close>

definition redact_dict_with ::
  "string list \<Rightarrow> (string \<Rightarrow> string) \<Rightarrow> store \<Rightarrow> nat \<Rightarrow> store \<times> nat" where
  "redact_dict_with text_fields redact h data =
    (let (h1, redacted_data) = dict_copy h data;
         h2 = redact_fields redact text_fields h1 redacted_data;
         h3 = (if (h2 ! redacted_data) ''patient_ssn'' \<noteq> None
               then dict_setitem h2 redacted_data ''patient_ssn'' (PStr ''[SSN-REDACTED]'')
               else h2);
         h4 = (if (h3 ! redacted_data) ''ssn'' \<noteq> None
               then dict_setitem h3 redacted_data ''ssn'' (PStr ''[SSN-REDACTED]'')
               else h3)
     in (h4, redacted_data))"

text \<open>\<open>AparaviRedactor.redact_dict\<close>.\<close>

definition aparavi_redact_dict :: "store \<Rightarrow> nat \<Rightarrow> store \<times> nat" where
  "aparavi_redact_dict =
    redact_dict_with
      [''voice_note'', ''emt_name'', ''patient_name'', ''notes'', ''description'', ''comment'',
       ''message'']
      redact_text"

text \<open>
  \<open>PIIRedactor.redact_text\<close> hands a non-empty text to the Presidio analyzer and
  anonymizer, which are not part of this repository: their joint effect on a text is the
  parameter \<open>anonymize\<close>.
\<close>

definition pii_redact_text :: "(string \<Rightarrow> string) \<Rightarrow> string \<Rightarrow> string" where
  "pii_redact_text anonymize text = (if text = [] then text else anonymize text)"

text \<open>\<open>PIIRedactor.redact_dict\<close>.\<close>

definition pii_redact_dict :: "(string \<Rightarrow> string) \<Rightarrow> store \<Rightarrow> nat \<Rightarrow> store \<times> nat" where
  "pii_redact_dict anonymize =
    redact_dict_with
      [''voice_note'', ''emt_name'', ''patient_name'', ''notes'', ''description'', ''comment'']
      (pii_redact_text anonymize)"

text \<open>The keys \<open>redact_dict\<close> may assign to, in either class.\<close>

definition redacted_keys :: "string list" where
  "redacted_keys =
    [''voice_note'', ''emt_name'', ''patient_name'', ''notes'', ''description'', ''comment'',
     ''message'', ''ssn'', ''patient_ssn'']"

section \<open>Severity score and alerts\<close>

lemma fst_rules:
  "fst (heart_rate_rule v st) = fst st
     + (if dict_get v ''heart_rate'' 70 > 120 \<or> dict_get v ''heart_rate'' 70 < 50 then 15 else 0)"
  "fst (spo2_rule v st) = fst st
     + (if dict_get v ''spo2'' 98 < 90 then 20 else if dict_get v ''spo2'' 98 < 94 then 10 else 0)"
  "fst (sbp_rule v st) = fst st
     + (if dict_get v ''blood_pressure_systolic'' 120 < 90 then 20 else 0)"
  "fst (gcs_rule v st) = fst st
     + (if dict_get v ''gcs'' 15 < 9 then 25 else if dict_get v ''gcs'' 15 < 13 then 15 else 0)"
  "fst (chest_pain_rule s st) = fst st + (if truthy_get s ''chest_pain'' then 10 else 0)"
  "fst (st_elevation_rule s st) = fst st + (if truthy_get s ''st_elevation'' then 15 else 0)"
  "fst (shock_index_rule sc st) = fst st
     + (if dict_get (dict_get sc ''shock_index'' Map.empty) ''value'' (7 / 10) > 1 then 15 else 0)"
  by (simp_all add: heart_rate_rule_def spo2_rule_def sbp_rule_def gcs_rule_def
        chest_pain_rule_def st_elevation_rule_def shock_index_rule_def add_factor_def Let_def)

lemmas severity_defs =
  predict_severity_def Let_def add_factor_def heart_rate_rule_def spo2_rule_def sbp_rule_def
  gcs_rule_def chest_pain_rule_def st_elevation_rule_def shock_index_rule_def severity_level_def

lemma score_predict_severity:
  "score (predict_severity v s sc) =
     min (fst (shock_index_rule sc (st_elevation_rule s (chest_pain_rule s
                (gcs_rule v (sbp_rule v (spo2_rule v (heart_rate_rule v (0, []))))))))) 100"
  by (simp add: predict_severity_def Let_def)

lemma level_predict_severity:
  "level (predict_severity v s sc) = fst (severity_level (score (predict_severity v s sc)))"
  by (simp add: predict_severity_def Let_def)

text \<open>
  Claim C1.  For all vitals, symptoms and scores, the score of \<open>predict_severity\<close> is
  the sum of the points of the independent rules (abnormal heart rate 15, SpO2 below 90
  20 or else below 94 10, systolic pressure below 90 20, GCS below 9 25 or else below 13
  15, chest pain 10, ST elevation 15, shock index above 1.0 15), capped at 100; it lies
  between 0 and 100; and the level is CRITICAL from 75, EMERGENT from 50, URGENT from 25
  and NON-EMERGENT below.
\<close>

theorem predict_severity_rules:
  "score (predict_severity v s sc) =
     min 100
      ((if dict_get v ''heart_rate'' 70 > 120 \<or> dict_get v ''heart_rate'' 70 < 50 then 15 else 0)
     + (if dict_get v ''spo2'' 98 < 90 then 20 else if dict_get v ''spo2'' 98 < 94 then 10 else 0)
     + (if dict_get v ''blood_pressure_systolic'' 120 < 90 then 20 else 0)
     + (if dict_get v ''gcs'' 15 < 9 then 25 else if dict_get v ''gcs'' 15 < 13 then 15 else 0)
     + (if truthy_get s ''chest_pain'' then 10 else 0)
     + (if truthy_get s ''st_elevation'' then 15 else 0)
     + (if dict_get (dict_get sc ''shock_index'' Map.empty) ''value'' (7 / 10) > 1 then 15 else 0))
   \<and> level (predict_severity v s sc) =
      (if score (predict_severity v s sc) \<ge> 75 then ''CRITICAL''
       else if score (predict_severity v s sc) \<ge> 50 then ''EMERGENT''
       else if score (predict_severity v s sc) \<ge> 25 then ''URGENT''
       else ''NON-EMERGENT'')
   \<and> 0 \<le> score (predict_severity v s sc) \<and> score (predict_severity v s sc) \<le> 100"
proof -
  let ?total =
     "(if dict_get v ''heart_rate'' 70 > 120 \<or> dict_get v ''heart_rate'' 70 < 50 then 15 else 0)
     + (if dict_get v ''spo2'' 98 < 90 then 20 else if dict_get v ''spo2'' 98 < 94 then 10 else 0)
     + (if dict_get v ''blood_pressure_systolic'' 120 < 90 then 20 else 0)
     + (if dict_get v ''gcs'' 15 < 9 then 25 else if dict_get v ''gcs'' 15 < 13 then 15 else 0)
     + (if truthy_get s ''chest_pain'' then 10 else 0)
     + (if truthy_get s ''st_elevation'' then 15 else 0)
     + (if dict_get (dict_get sc ''shock_index'' Map.empty) ''value'' (7 / 10) > 1 then 15
        else (0::int))"
  have sc: "score (predict_severity v s sc) = min 100 ?total"
    unfolding score_predict_severity fst_rules by (simp only: fst_conv add_0 min.commute)
  have nn: "0 \<le> ?total"
    by (intro add_nonneg_nonneg) simp_all
  have lv: "level (predict_severity v s sc) =
      (if score (predict_severity v s sc) \<ge> 75 then ''CRITICAL''
       else if score (predict_severity v s sc) \<ge> 50 then ''EMERGENT''
       else if score (predict_severity v s sc) \<ge> 25 then ''URGENT''
       else ''NON-EMERGENT'')"
    unfolding level_predict_severity by (simp add: severity_level_def)
  have rng: "0 \<le> score (predict_severity v s sc) \<and> score (predict_severity v s sc) \<le> 100"
  proof -
    have "0 \<le> min 100 t \<and> min 100 t \<le> 100" if "0 \<le> t" for t :: int
      using that by simp
    from this[OF nn] show ?thesis unfolding sc .
  qed
  show ?thesis by (rule conjI[OF sc conjI[OF lv rng]])
qed

text \<open>
  Claim C2, as amended.  With heart rate 125, systolic pressure 85, SpO2 89 and GCS 13,
  no chest pain or ST elevation flag and no shock-index score, the severity score is
  15 (heart rate) + 20 (SpO2 below 90) + 20 (systolic pressure) = 55 and the level is
  EMERGENT.
\<close>

theorem predict_severity_example:
  assumes "v ''heart_rate'' = Some 125" and "v ''blood_pressure_systolic'' = Some 85"
      and "v ''spo2'' = Some 89" and "v ''gcs'' = Some 13"
      and "\<not> truthy_get s ''chest_pain''" and "\<not> truthy_get s ''st_elevation''"
      and "sc ''shock_index'' = None"
  shows "score (predict_severity v s sc) = 55 \<and> level (predict_severity v s sc) = ''EMERGENT''"
  using assms by (simp add: severity_defs dict_get_def)

text \<open>The same input, against the score 45 and the level URGENT.\<close>

theorem predict_severity_example_refuted:
  "\<not> (score (predict_severity
          [''heart_rate'' \<mapsto> 125, ''blood_pressure_systolic'' \<mapsto> 85, ''spo2'' \<mapsto> 89, ''gcs'' \<mapsto> 13]
          Map.empty Map.empty) = 45
      \<and> level (predict_severity
          [''heart_rate'' \<mapsto> 125, ''blood_pressure_systolic'' \<mapsto> 85, ''spo2'' \<mapsto> 89, ''gcs'' \<mapsto> 13]
          Map.empty Map.empty) = ''URGENT'')"
  by (simp add: severity_defs dict_get_def truthy_get_def)

theorem predict_severity_example_witness:
  "score (predict_severity
          [''heart_rate'' \<mapsto> 125, ''blood_pressure_systolic'' \<mapsto> 85, ''spo2'' \<mapsto> 89, ''gcs'' \<mapsto> 13]
          Map.empty Map.empty) = 55
   \<and> level (predict_severity
          [''heart_rate'' \<mapsto> 125, ''blood_pressure_systolic'' \<mapsto> 85, ''spo2'' \<mapsto> 89, ''gcs'' \<mapsto> 13]
          Map.empty Map.empty) = ''EMERGENT''"
  using predict_severity_example
    [of "[''heart_rate'' \<mapsto> 125, ''blood_pressure_systolic'' \<mapsto> 85, ''spo2'' \<mapsto> 89, ''gcs'' \<mapsto> 13]"
        Map.empty Map.empty]
  by (simp add: truthy_get_def)

text \<open>
  Claim C3.  The list of \<open>predict_active_alerts\<close> contains STEMI iff the STEMI
  checklist score is at least 3, STROKE iff the NIHSS score is above 7, TRAUMA iff the
  trauma score is below 5, SEPSIS iff the qSOFA score is at least 2, and
  CARDIAC\_ARREST\_RISK iff GCS is below 5 and systolic pressure is below 70 or SpO2 below
  80 (a missing score or vital sign counting as its default); the list follows the order
  of evaluation and has no duplicate.
\<close>

theorem predict_active_alerts_spec:
  "(''STEMI'' \<in> set (predict_active_alerts v s sc)
      \<longleftrightarrow> dict_get (dict_get sc ''stemi_checklist'' Map.empty) ''score'' 0 \<ge> 3)
   \<and> (''STROKE'' \<in> set (predict_active_alerts v s sc)
      \<longleftrightarrow> dict_get (dict_get sc ''nihss'' Map.empty) ''score'' 0 > 7)
   \<and> (''TRAUMA'' \<in> set (predict_active_alerts v s sc)
      \<longleftrightarrow> dict_get (dict_get sc ''trauma_score'' Map.empty) ''score'' 7 < 5)
   \<and> (''SEPSIS'' \<in> set (predict_active_alerts v s sc)
      \<longleftrightarrow> dict_get (dict_get sc ''qsofa'' Map.empty) ''score'' 0 \<ge> 2)
   \<and> (''CARDIAC_ARREST_RISK'' \<in> set (predict_active_alerts v s sc)
      \<longleftrightarrow> dict_get v ''gcs'' 15 < 5
          \<and> (dict_get v ''blood_pressure_systolic'' 120 < 70 \<or> dict_get v ''spo2'' 98 < 80))
   \<and> subseq (predict_active_alerts v s sc)
        [''STEMI'', ''STROKE'', ''TRAUMA'', ''SEPSIS'', ''CARDIAC_ARREST_RISK'']
   \<and> distinct (predict_active_alerts v s sc)"
  by (simp add: predict_active_alerts_def Let_def)

section \<open>Shock index and deterioration index\<close>

text \<open>
  Powers of two are evaluated by squaring, and the overflow bound is the number
  \<open>2 ^ 1024\<close> written out.
\<close>

lemma pow2_powi: "pow2 k = 2 powi k"
  by (simp add: pow2_def power_int_def inverse_eq_divide power_one_over)

lemma pow2_add: "pow2 (a + b) = pow2 a * pow2 b"
  by (simp add: pow2_powi power_int_add)

lemma pow2_code [code]:
  "pow2 k = (if k = 0 then 1 else if k < 0 then 1 / pow2 (- k)
             else if even k then (pow2 (k div 2))\<^sup>2 else 2 * (pow2 (k div 2))\<^sup>2)"
proof -
  have neg: "pow2 k = 1 / pow2 (- k)"
    by (simp add: pow2_powi power_int_minus inverse_eq_divide)
  have ev: "pow2 k = (pow2 (k div 2))\<^sup>2" if "even k"
  proof -
    have "k = k div 2 + k div 2" using that by presburger
    then have "pow2 k = pow2 (k div 2) * pow2 (k div 2)" by (metis pow2_add)
    then show ?thesis by (simp add: power2_eq_square)
  qed
  have od: "pow2 k = 2 * (pow2 (k div 2))\<^sup>2" if "odd k"
  proof -
    have "k = 1 + (k div 2 + k div 2)" using that by presburger
    then have "pow2 k = pow2 1 * (pow2 (k div 2) * pow2 (k div 2))" by (metis pow2_add)
    then show ?thesis by (simp add: power2_eq_square pow2_def)
  qed
  have z: "pow2 0 = 1" by (simp add: pow2_def)
  show ?thesis using neg ev od z by auto
qed

lemma float_overflow_code [code]:
  "float_overflow = 179769313486231590772930519078902473361797697894230657273430081157732675805500963132708477322407536021120113879871393357658789768814416622492847430639474124377767893424865485276302219601246094119453082952085005768838150682342462881473913110540827237163350510684586298239947245938479716304835356329624224137216"
  by (simp add: float_overflow_def pow2_def)










text \<open>
  The quotients 63/120 and 69/120 lie halfway between two decimals; as floats they fall
  just above 0.525 and just below 0.575, so \<open>round\<close> gives 0.53 and 0.57.
\<close>

lemma calculate_shock_index_halfway:
  "map_sum id shock_value
      (calculate_shock_index [''heart_rate'' \<mapsto> 63, ''blood_pressure_systolic'' \<mapsto> 120])
     = Inr (float_lit (53 / 100))"
  "map_sum id shock_value
      (calculate_shock_index [''heart_rate'' \<mapsto> 69, ''blood_pressure_systolic'' \<mapsto> 120])
     = Inr (float_lit (57 / 100))"
  "map_sum id shock_value
      (calculate_shock_index [''heart_rate'' \<mapsto> 70, ''blood_pressure_systolic'' \<mapsto> 120])
     = Inr (float_lit (58 / 100))"
  by code_simp+






section \<open>The voice-note sequence\<close>

lemma snd_generate_voice_note:
  "snd (generate_voice_note self) =
    (if current_note_index self \<ge> length (get_scenario_notes self) then self
     else self\<lparr>current_note_index := current_note_index self + 1\<rparr>)"
  by (simp add: generate_voice_note_def Let_def)

lemma note_generate_voice_note:
  "vn_voice_note (fst (generate_voice_note self)) =
    (if current_note_index self \<ge> length (get_scenario_notes self) then final_note self
     else get_scenario_notes self ! current_note_index self)"
  by (simp add: generate_voice_note_def Let_def)

lemma eta_generate_voice_note:
  "vn_eta_minutes (fst (generate_voice_note self)) =
    max 0 (eta_minutes self - int (current_note_index (snd (generate_voice_note self))) * 2)"
  by (simp add: generate_voice_note_def Let_def)

lemma get_scenario_notes_index [simp]:
  "get_scenario_notes (self\<lparr>current_note_index := i\<rparr>) = get_scenario_notes self"
  by (simp add: get_scenario_notes_def)

lemma final_note_index [simp]:
  "final_note (self\<lparr>current_note_index := i\<rparr>) = final_note self"
  by (simp add: final_note_def)

lemma after_calls_index:
  "after_calls n self =
     self\<lparr>current_note_index :=
       (if current_note_index self \<ge> length (get_scenario_notes self)
        then current_note_index self
        else min (current_note_index self + n) (length (get_scenario_notes self)))\<rparr>"
proof (induction n arbitrary: self)
  case 0
  then show ?case by simp
next
  case (Suc n)
  show ?case
    by (simp add: Suc snd_generate_voice_note min_def)
qed

lemma init_simulator_facts:
  "current_note_index (init_simulator scn) = 0"
  "eta_minutes (init_simulator scn) = 8"
  "length (get_scenario_notes (init_simulator scn)) = (if scn = ''trauma'' then 3 else 5)"
  by (simp_all add: init_simulator_def get_scenario_notes_def Let_def)

text \<open>
  Claim C8, as amended.  On a freshly constructed simulator, call number \<open>n\<close> (from 0)
  returns note \<open>n\<close> of the scenario's list and moves the cursor from \<open>n\<close> to \<open>n + 1\<close>
  while \<open>n\<close> is below the length of the list; from then on every call returns the same
  final arrival note and leaves the simulator as it is.  On a call that advances the cursor
  the ETA is the ETA before it (8 before the first call) minus 2, floored at zero; on a
  call that does not, it stays the same.  It is never negative and never increases.
\<close>

theorem generate_voice_note_sequence:
  "(n < length (get_scenario_notes (init_simulator scn)) \<longrightarrow>
       vn_voice_note (nth_call n (init_simulator scn))
         = get_scenario_notes (init_simulator scn) ! n
     \<and> current_note_index (after_calls n (init_simulator scn)) = n
     \<and> current_note_index (after_calls (Suc n) (init_simulator scn)) = Suc n
     \<and> vn_eta_minutes (nth_call n (init_simulator scn))
         = max 0 ((if n = 0 then eta_minutes (init_simulator scn)
                   else vn_eta_minutes (nth_call (n - 1) (init_simulator scn))) - 2))
   \<and> (length (get_scenario_notes (init_simulator scn)) \<le> n \<longrightarrow>
       vn_voice_note (nth_call n (init_simulator scn)) = final_note (init_simulator scn)
     \<and> after_calls (Suc n) (init_simulator scn) = after_calls n (init_simulator scn)
     \<and> vn_eta_minutes (nth_call (Suc n) (init_simulator scn))
         = vn_eta_minutes (nth_call n (init_simulator scn)))
   \<and> 0 \<le> vn_eta_minutes (nth_call n (init_simulator scn))
   \<and> vn_eta_minutes (nth_call (Suc n) (init_simulator scn))
       \<le> vn_eta_minutes (nth_call n (init_simulator scn))"
  unfolding nth_call_def after_calls_index note_generate_voice_note eta_generate_voice_note
    snd_generate_voice_note
  by (auto simp: init_simulator_facts min_def max_def)

theorem generate_voice_note_sequence_witness:
  "vn_voice_note (nth_call 1 (init_simulator ''trauma''))
      = get_scenario_notes (init_simulator ''trauma'') ! 1
   \<and> vn_eta_minutes (nth_call 0 (init_simulator ''trauma'')) = 6
   \<and> vn_eta_minutes (nth_call 1 (init_simulator ''trauma'')) = 4
   \<and> vn_voice_note (nth_call 5 (init_simulator ''trauma''))
      = final_note (init_simulator ''trauma'')
   \<and> after_calls 6 (init_simulator ''trauma'') = after_calls 5 (init_simulator ''trauma'')"
  using generate_voice_note_sequence [of 0 "''trauma''"]
    generate_voice_note_sequence [of 1 "''trauma''"]
    generate_voice_note_sequence [of 5 "''trauma''"]
  by (simp add: init_simulator_facts eval_nat_numeral)

text \<open>
  In the default scenario of five notes the fifth call advances the cursor from 4 to 5,
  yet its ETA is 0 as the fourth call's was: it does not go down by 2.
\<close>

theorem generate_voice_note_fifth_call:
  "current_note_index (after_calls 4 (init_simulator ''mi_patient'')) = 4
   \<and> current_note_index (after_calls 5 (init_simulator ''mi_patient'')) = 5
   \<and> vn_eta_minutes (nth_call 4 (init_simulator ''mi_patient''))
       \<noteq> vn_eta_minutes (nth_call 3 (init_simulator ''mi_patient'')) - 2"
  by (simp add: nth_call_def after_calls_index eta_generate_voice_note snd_generate_voice_note
        init_simulator_facts)

section \<open>The resource pool\<close>

lemma get_available_eq:
  "get_available r k = (case available r k of None \<Rightarrow> Inl KeyError | Some a \<Rightarrow> Inr a)"
  by (simp add: get_available_def available_def dict_item_def split: option.splits)

lemma available_sub_available:
  "available (snd (sub_available r k n)) k' =
     (if k' = k \<and> available r k \<noteq> None then Some (the (available r k) - n) else available r k')"
  by (auto simp: sub_available_def available_def dict_item_def split: option.splits)
lemma lowers_refl: "lowers r r"
  by (simp add: lowers_def)

lemma lowers_trans:
  assumes "lowers r r'" and "lowers r' r''"
  shows "lowers r r''"
  unfolding lowers_def
proof (intro allI impI)
  fix k a
  assume "available r k = Some a"
  with assms(1) obtain a' where
    1: "available r' k = Some a'" "a' \<le> a" "0 \<le> a \<longrightarrow> 0 \<le> a'" "a = 0 \<longrightarrow> a' = 0"
    unfolding lowers_def by blast
  with assms(2) obtain a'' where
    2: "available r'' k = Some a''" "a'' \<le> a'" "0 \<le> a' \<longrightarrow> 0 \<le> a''" "a' = 0 \<longrightarrow> a'' = 0"
    unfolding lowers_def by blast
  from 1 2 show "\<exists>a'. available r'' k = Some a' \<and> a' \<le> a \<and> (0 \<le> a \<longrightarrow> 0 \<le> a') \<and> (a = 0 \<longrightarrow> a' = 0)"
    by (intro exI[of _ a'']) auto
qed

lemma lowers_sub_available:
  "available r k = Some a \<Longrightarrow> 0 \<le> n \<Longrightarrow> n \<le> a \<Longrightarrow> lowers r (snd (sub_available r k n))"
  by (auto simp: lowers_def available_sub_available)

lemma lowers_consume: "lowers r (snd (consume c k r))"
  by (auto simp: consume_def get_available_eq lowers_refl lowers_sub_available
           split: option.splits)

lemma lowers_blood:
  "lowers r (snd (if c then (case get_available r k of
                    Inl e \<Rightarrow> (Some e, r)
                  | Inr a \<Rightarrow> if a \<ge> 2 then sub_available r k 2 else (None, r))
               else (None, r)))"
  by (auto simp: get_available_eq lowers_refl lowers_sub_available split: option.splits)

lemma lowers_and_then:
  "lowers r0 (snd st) \<Longrightarrow> (\<And>r. lowers r (snd (f r))) \<Longrightarrow> lowers r0 (snd (and_then st f))"
  by (auto simp: and_then_def split: prod.splits option.splits intro: lowers_trans)

lemma lowers_update: "lowers r (snd (update_hospital_resources r pd))"
  unfolding update_hospital_resources_def Let_def
  by (intro lowers_and_then lowers_consume lowers_blood)

text \<open>
  Claim C9.  Whatever the pool and the patient record, \<open>update_hospital_resources\<close>
  leaves every counter with an \<open>available\<close> value in place, never raises it, keeps a
  non-negative one non-negative and keeps one that is 0 at 0; so a patient who needs an
  ICU bed leaves \<open>icu_beds\<close> at 0 when none is available.
\<close>

theorem update_hospital_resources_never_negative:
  "available r k = Some a \<Longrightarrow>
   \<exists>a'. available (snd (update_hospital_resources r pd)) k = Some a' \<and> a' \<le> a
        \<and> (0 \<le> a \<longrightarrow> 0 \<le> a') \<and> (a = 0 \<longrightarrow> a' = 0)"
  using lowers_update[of r pd] unfolding lowers_def by blast

theorem update_hospital_resources_witness:
  "available (hospital_resources(''icu_beds'' \<mapsto> [''total'' \<mapsto> 12, ''available'' \<mapsto> 0])) ''icu_beds''
      = Some 0
   \<and> available (snd (update_hospital_resources
         (hospital_resources(''icu_beds'' \<mapsto> [''total'' \<mapsto> 12, ''available'' \<mapsto> 0]))
         \<lparr>pd_predictions = Some [''predictions'' \<mapsto> [''needs_icu'' \<mapsto> True]],
          pd_active_alerts = Some [''TRAUMA'']\<rparr>)) ''icu_beds'' = Some 0"
  using update_hospital_resources_never_negative
   [of "hospital_resources(''icu_beds'' \<mapsto> [''total'' \<mapsto> 12, ''available'' \<mapsto> 0])" "''icu_beds''" 0
       "\<lparr>pd_predictions = Some [''predictions'' \<mapsto> [''needs_icu'' \<mapsto> True]],
          pd_active_alerts = Some [''TRAUMA'']\<rparr>"]
  by (simp add: available_def hospital_resources_def)

section \<open>PII detection and redaction\<close>

text \<open>A pattern with a part that cannot match anywhere in a text has no match in it.\<close>

declare finditer.simps [simp del]

lemma ends_Rep_nil:
  assumes "0 < lo" and "set s \<inter> set c = {}"
  shows "ends (Rep c lo hi) s i = []"
proof -
  have "takeWhile (\<lambda>x. x \<in> set c) (drop i s) = []"
  proof (cases "drop i s")
    case Nil
    then show ?thesis by simp
  next
    case (Cons x xs)
    then have "x \<in> set s" by (metis in_set_dropD list.set_intros(1))
    with assms(2) have "x \<notin> set c" by auto
    with Cons show ?thesis by simp
  qed
  with assms(1) show ?thesis
    by (cases hi) (simp_all add: Let_def)
qed

lemma ends_Lit_nil:
  assumes "\<not> set w \<subseteq> set s"
  shows "ends (Lit w) s i = []"
proof -
  have "take (length w) (drop i s) \<noteq> w"
  proof
    assume "take (length w) (drop i s) = w"
    then have "set w \<subseteq> set (drop i s)" by (metis set_take_subset)
    also have "\<dots> \<subseteq> set s" by (rule set_drop_subset)
    finally show False using assms by simp
  qed
  then show ?thesis by simp
qed

lemma ends_seqs_nil:
  assumes "\<exists>r \<in> set rs. \<forall>i. ends r s i = []"
  shows "ends (seqs rs) s i = []"
  using assms
proof (induction rs arbitrary: i)
  case Nil
  then show ?case by simp
next
  case (Cons r rs)
  show ?case
  proof (cases "\<forall>i. ends r s i = []")
    case True
    then show ?thesis by simp
  next
    case False
    with Cons.prems have "\<exists>r \<in> set rs. \<forall>i. ends r s i = []" by auto
    then have "\<And>j. ends (seqs rs) s j = []" by (rule Cons.IH)
    then show ?thesis by simp
  qed
qed

lemma first_match_nil: "(\<And>i. ends r s i = []) \<Longrightarrow> first_match r s pos = None"
  by (simp add: first_match_def)

lemma finditer_nil: "(\<And>i. ends r s i = []) \<Longrightarrow> finditer r s pos = []"
  by (simp add: finditer.simps first_match_nil)

lemmas pattern_defs =
  pii_patterns_def compiled_def ssn_pattern_def phone_pattern_def email_pattern_def
  name_pattern_def address_pattern_def bs_def

lemma matches_ascii:
  "matches re_finditer_ascii ''SSN'' text =
     finditer (seqs [Bnd, Rep digit 3 (Some 3), Lit ''-'', Rep digit 2 (Some 2), Lit ''-'',
                     Rep digit 4 (Some 4), Bnd]) text 0"
  "matches re_finditer_ascii ''PHONE'' text =
     finditer (seqs [Bnd, Rep digit 3 (Some 3), Rep ''-.'' 0 (Some 1), Rep digit 3 (Some 3),
                     Rep ''-.'' 0 (Some 1), Rep digit 4 (Some 4), Bnd]) text 0"
  "matches re_finditer_ascii ''EMAIL'' text =
     finditer (seqs [Bnd, Rep (upper @ lower @ digit @ ''._%+-'') 1 None, Lit ''@'',
                     Rep (upper @ lower @ digit @ ''.-'') 1 None, Lit ''.'',
                     Rep (upper @ ''|'' @ lower) 2 None, Bnd]) text 0"
  "matches re_finditer_ascii ''NAME'' text =
     finditer (seqs [Bnd, Cls upper, Rep lower 1 None, Lit '' '', Cls upper, Rep lower 1 None,
                     Bnd]) text 0"
  "matches re_finditer_ascii ''ADDRESS'' text =
     finditer (seqs [Bnd, Rep digit 1 (Some 5), Cls space, Rep word 1 None, Cls space,
            alts [Lit ''Street'', Lit ''St'', Lit ''Avenue'', Lit ''Ave'', Lit ''Road'',
                  Lit ''Rd'', Lit ''Boulevard'', Lit ''Blvd'', Lit ''Lane'', Lit ''Ln'',
                  Lit ''Drive'', Lit ''Dr''],
            Bnd]) text 0"
  by (simp_all add: matches_def re_finditer_ascii_def pattern_defs del: seqs.simps alts.simps)

lemma matches_nil_digit:
  assumes "set text \<inter> set digit = {}"
  shows "matches re_finditer_ascii ''SSN'' text = []"
    and "matches re_finditer_ascii ''PHONE'' text = []"
    and "matches re_finditer_ascii ''ADDRESS'' text = []"
  using ends_Rep_nil[OF _ assms]
  by (simp_all add: matches_ascii finditer_nil ends_seqs_nil del: ends.simps seqs.simps)

lemma matches_nil_lower:
  assumes "set text \<inter> set lower = {}"
  shows "matches re_finditer_ascii ''NAME'' text = []"
  using ends_Rep_nil[OF _ assms]
  by (simp add: matches_ascii finditer_nil ends_seqs_nil del: ends.simps seqs.simps)

lemma matches_nil_at:
  assumes "CHR ''@'' \<notin> set text"
  shows "matches re_finditer_ascii ''EMAIL'' text = []"
proof -
  have "ends (Lit ''@'') text i = []" for i
    using assms by (intro ends_Lit_nil) simp
  then show ?thesis
    by (simp add: matches_ascii finditer_nil ends_seqs_nil del: ends.simps seqs.simps)
qed

lemma detect_pii_locally_with_matches:
  "detect_pii_locally_with re_finditer text =
    concat (map (\<lambda>ty.
        map (\<lambda>(b, e). \<lparr>pii_type = ty, pii_text = take (e - b) (drop b text),
                        pii_start = b, pii_end = e, confidence = 95 / 100\<rparr>)
            (matches re_finditer ty text))
      [''SSN'', ''PHONE'', ''EMAIL'', ''NAME'', ''ADDRESS''])"
  by (simp add: detect_pii_locally_with_def matches_def pii_patterns_def)

lemma redact_text_plain:
  assumes "set text \<inter> set digit = {}" and "set text \<inter> set lower = {}"
    and "CHR ''@'' \<notin> set text"
  shows "redact_text text = text"
  by (simp add: redact_text_def detect_pii_locally_def detect_pii_locally_with_matches
        matches_nil_digit[OF assms(1)] matches_nil_lower[OF assms(2)]
        matches_nil_at[OF assms(3)])

lemma piece_plain:
  assumes "piece (space @ removeAll (CHR ''@'') punctuation) p"
  shows "set p \<inter> set digit = {} \<and> set p \<inter> set lower = {} \<and> CHR ''@'' \<notin> set p"
proof -
  from assms consider "p \<in> set placeholders"
    | c where "p = [c]" "c \<in> set (space @ removeAll (CHR ''@'') punctuation)"
    unfolding piece_def by (cases p) auto
  then show ?thesis
  proof cases
    case 1
    then show ?thesis
      by (auto simp: placeholders_def digit_def lower_def)
  next
    case 2
    then show ?thesis
      by (auto simp: punctuation_def space_def digit_def lower_def)
  qed
qed

text \<open>
  Extra X1.  A text that consists only of placeholder tokens, white space and ASCII
  punctuation other than \<open>@\<close> comes back from \<open>redact_text\<close> unchanged: the SSN,
  PHONE and ADDRESS patterns need a digit, the NAME pattern a lower-case letter and the
  EMAIL pattern an \<open>@\<close>.
\<close>

theorem redact_text_placeholders:
  "list_all (piece (space @ removeAll (CHR ''@'') punctuation)) pieces
     \<Longrightarrow> redact_text (concat pieces) = concat pieces"
proof -
  assume a: "list_all (piece (space @ removeAll (CHR ''@'') punctuation)) pieces"
  have "set (concat pieces) \<inter> set digit = {} \<and> set (concat pieces) \<inter> set lower = {}
          \<and> CHR ''@'' \<notin> set (concat pieces)"
    using a piece_plain by (fastforce simp: list_all_iff)
  then show ?thesis
    by (intro redact_text_plain) simp_all
qed

theorem redact_text_placeholders_witness:
  "redact_text ''[SSN-REDACTED] [PHONE], [EMAIL]; [PATIENT]-[LOCATION]|[REDACTED].''
     = ''[SSN-REDACTED] [PHONE], [EMAIL]; [PATIENT]-[LOCATION]|[REDACTED].''"
  using redact_text_placeholders
    [of "[''[SSN-REDACTED]'', '' '', ''[PHONE]'', '','', '' '', ''[EMAIL]'', '';'', '' '',
          ''[PATIENT]'', ''-'', ''[LOCATION]'', ''|'', ''[REDACTED]'', ''.'']"]
  by (simp add: piece_def placeholders_def punctuation_def space_def)

text \<open>
  Claim C7.  Redaction is to leave a text unchanged that consists only of placeholder
  tokens separated by white space or punctuation.  It does not: the text
  \<open>[EMAIL]_@-.||_[EMAIL]\<close> is two tokens with the punctuation \<open>_@-.||_\<close> between them,
  and \<open>redact_text\<close> turns it into \<open>[EMAIL][EMAIL]_[EMAIL]\<close>.  The EMAIL pattern matches
  \<open>_@-.||\<close>, because its last class is written \<open>[A-Z|a-z]\<close> and so admits the bar.
\<close>

theorem redact_text_placeholders_refuted:
  "list_all (piece (space @ punctuation))
      [''[EMAIL]'', ''_'', ''@'', ''-'', ''.'', ''|'', ''|'', ''_'', ''[EMAIL]'']
   \<and> redact_text (concat [''[EMAIL]'', ''_'', ''@'', ''-'', ''.'', ''|'', ''|'', ''_'', ''[EMAIL]''])
       = ''[EMAIL][EMAIL]_[EMAIL]''
   \<and> redact_text (concat [''[EMAIL]'', ''_'', ''@'', ''-'', ''.'', ''|'', ''|'', ''_'', ''[EMAIL]''])
       \<noteq> concat [''[EMAIL]'', ''_'', ''@'', ''-'', ''.'', ''|'', ''|'', ''_'', ''[EMAIL]'']
   \<and> map (\<lambda>e. (pii_type e, pii_text e, pii_start e, pii_end e))
         (detect_pii_locally ''[EMAIL]_@-.||_[EMAIL]'')
       = [(''EMAIL'', ''_@-.||'', 7, 13)]"
  by code_simp

lemma typed_entities_iff:
  assumes "\<And>ty m. pii_type (mk ty m) = ty" and "\<And>ty m. confidence (mk ty m) = c"
  shows "(\<exists>e \<in> set (concat (map (\<lambda>ty. map (mk ty) (M ty)) tys)). P (pii_type e) (confidence e))
     \<longleftrightarrow> (\<exists>ty \<in> set tys. P ty c \<and> M ty \<noteq> [])"
proof -
  have "(\<exists>e \<in> set (concat (map (\<lambda>ty. map (mk ty) (M ty)) tys)). P (pii_type e) (confidence e))
     \<longleftrightarrow> (\<exists>ty \<in> set tys. \<exists>m \<in> set (M ty). P ty c)"
    using assms by auto
  also have "\<dots> \<longleftrightarrow> (\<exists>ty \<in> set tys. P ty c \<and> M ty \<noteq> [])"
    by (metis empty_iff empty_set hd_in_set)
  finally show ?thesis .
qed

lemma detect_type_iff:
  "(\<exists>e \<in> set (detect_pii_locally_with re_finditer text). P (pii_type e) (confidence e)) \<longleftrightarrow>
   (\<exists>ty \<in> set [''SSN'', ''PHONE'', ''EMAIL'', ''NAME'', ''ADDRESS''].
       P ty (95 / 100) \<and> matches re_finditer ty text \<noteq> [])"
  unfolding detect_pii_locally_with_matches
  by (rule typed_entities_iff) (simp_all add: split_beta)

lemma detect_nil_iff:
  "detect_pii_locally_with re_finditer text = [] \<longleftrightarrow>
   (\<forall>ty \<in> set [''SSN'', ''PHONE'', ''EMAIL'', ''NAME'', ''ADDRESS''].
       matches re_finditer ty text = [])"
  using detect_type_iff[of re_finditer "text" "\<lambda>_ _. True"]
  by (metis (no_types, lifting) empty_iff empty_set hd_in_set)

text \<open>
  Claim C6.  Whatever \<open>re.finditer\<close> matches, and so for every text: the risk level of
  \<open>analyze_pii_risk\<close> is HIGH if the SSN or the PHONE pattern has a match in the text,
  MEDIUM if some pattern has a match but neither of those two, and LOW if no pattern has
  one.  \<open>is_hipaa_compliant\<close> holds iff no detected SSN, PHONE or EMAIL entity has a
  confidence above 0.7, which (every entity having confidence 0.95) is to say that none
  of these three patterns has a match.
\<close>

theorem analyze_pii_risk_spec:
  "risk_level (analyze_pii_risk re_finditer text) =
     (if 0 < length (matches re_finditer ''SSN'' text)
         \<or> 0 < length (matches re_finditer ''PHONE'' text) then ''HIGH''
      else if 0 < length (matches re_finditer ''EMAIL'' text)
              \<or> 0 < length (matches re_finditer ''NAME'' text)
              \<or> 0 < length (matches re_finditer ''ADDRESS'' text) then ''MEDIUM''
      else ''LOW'')
   \<and> (is_hipaa_compliant re_finditer text \<longleftrightarrow>
        \<not> (\<exists>e \<in> set (detect_pii_locally_with re_finditer text).
              pii_type e \<in> {''SSN'', ''PHONE'', ''EMAIL''} \<and> confidence e > 7 / 10))
   \<and> (is_hipaa_compliant re_finditer text \<longleftrightarrow>
        length (matches re_finditer ''SSN'' text) = 0
        \<and> length (matches re_finditer ''PHONE'' text) = 0
        \<and> length (matches re_finditer ''EMAIL'' text) = 0)
   \<and> matches re_finditer ''SSN'' text = re_finditer ssn_pattern text
   \<and> matches re_finditer ''PHONE'' text = re_finditer phone_pattern text
   \<and> matches re_finditer ''EMAIL'' text = re_finditer email_pattern text
   \<and> matches re_finditer ''NAME'' text = re_finditer name_pattern text
   \<and> matches re_finditer ''ADDRESS'' text = re_finditer address_pattern text"
proof (intro conjI)
  let ?d = "detect_pii_locally_with re_finditer text"
  have high: "list_ex (\<lambda>e. pii_type e \<in> set [''SSN'', ''PHONE'']) ?d
      \<longleftrightarrow> 0 < length (matches re_finditer ''SSN'' text)
          \<or> 0 < length (matches re_finditer ''PHONE'' text)"
    unfolding list_ex_iff
      detect_type_iff[of re_finditer "text" "\<lambda>ty _. ty \<in> set [''SSN'', ''PHONE'']"]
    by auto
  have any: "0 < length ?d \<longleftrightarrow>
      0 < length (matches re_finditer ''SSN'' text)
      \<or> 0 < length (matches re_finditer ''PHONE'' text)
      \<or> 0 < length (matches re_finditer ''EMAIL'' text)
      \<or> 0 < length (matches re_finditer ''NAME'' text)
      \<or> 0 < length (matches re_finditer ''ADDRESS'' text)"
    using detect_nil_iff[of re_finditer "text"] by auto
  show "risk_level (analyze_pii_risk re_finditer text) =
     (if 0 < length (matches re_finditer ''SSN'' text)
         \<or> 0 < length (matches re_finditer ''PHONE'' text) then ''HIGH''
      else if 0 < length (matches re_finditer ''EMAIL'' text)
              \<or> 0 < length (matches re_finditer ''NAME'' text)
              \<or> 0 < length (matches re_finditer ''ADDRESS'' text) then ''MEDIUM''
      else ''LOW'')"
    unfolding analyze_pii_risk_def Let_def using high any
    by (simp del: length_greater_0_conv set_simps list.set)
  show "is_hipaa_compliant re_finditer text \<longleftrightarrow>
        \<not> (\<exists>e \<in> set ?d.
              pii_type e \<in> {''SSN'', ''PHONE'', ''EMAIL''} \<and> confidence e > 7 / 10)"
    by (simp add: is_hipaa_compliant_def list_ex_iff)
  show "is_hipaa_compliant re_finditer text \<longleftrightarrow>
        length (matches re_finditer ''SSN'' text) = 0
        \<and> length (matches re_finditer ''PHONE'' text) = 0
        \<and> length (matches re_finditer ''EMAIL'' text) = 0"
    unfolding is_hipaa_compliant_def list_ex_iff
      detect_type_iff[of re_finditer "text"
        "\<lambda>ty c. ty \<in> set [''SSN'', ''PHONE'', ''EMAIL''] \<and> c > 7 / 10"]
    by auto
qed (simp_all add: matches_def pii_patterns_def)

section \<open>The frame of redact\_dict\<close>

lemma dict_setitem_frame:
  "length (dict_setitem h a k v) = length h"
  "b \<noteq> a \<Longrightarrow> dict_setitem h a k v ! b = h ! b"
  "a < length h \<Longrightarrow> dict_setitem h a k v ! a = (h ! a)(k \<mapsto> v)"
  by (simp_all add: dict_setitem_def)

lemma redact_fields_frame:
  "length (redact_fields redact flds h rd) = length h
   \<and> (\<forall>b. b \<noteq> rd \<longrightarrow> redact_fields redact flds h rd ! b = h ! b)
   \<and> (rd < length h \<longrightarrow>
        dom (redact_fields redact flds h rd ! rd) = dom (h ! rd)
      \<and> (\<forall>k. k \<notin> set flds \<longrightarrow> (redact_fields redact flds h rd ! rd) k = (h ! rd) k))"
proof (induction flds arbitrary: h)
  case Nil
  then show ?case by simp
next
  case (Cons field flds)
  let ?h' = "(case (h ! rd) field of
         Some (PStr s) \<Rightarrow> dict_setitem h rd field (PStr (redact s))
       | _ \<Rightarrow> h)"
  have len: "length ?h' = length h"
    by (simp add: dict_setitem_frame split: option.splits pyval.splits)
  have other: "b \<noteq> rd \<Longrightarrow> ?h' ! b = h ! b" for b
    by (simp add: dict_setitem_frame split: option.splits pyval.splits)
  have dom': "rd < length h \<Longrightarrow> dom (?h' ! rd) = dom (h ! rd)"
    by (auto simp: dict_setitem_frame split: option.splits pyval.splits)
  have keep: "rd < length h \<Longrightarrow> k \<noteq> field \<Longrightarrow> (?h' ! rd) k = (h ! rd) k" for k
    by (simp add: dict_setitem_frame split: option.splits pyval.splits)
  from Cons.IH[of ?h'] len other dom' keep show ?case
    by (simp del: fun_upd_apply)
qed

lemma set_present_frame:
  assumes "rd < length h"
  shows "length (if (h ! rd) k \<noteq> None then dict_setitem h rd k v else h) = length h"
    and "\<And>b. b \<noteq> rd \<Longrightarrow> (if (h ! rd) k \<noteq> None then dict_setitem h rd k v else h) ! b = h ! b"
    and "dom ((if (h ! rd) k \<noteq> None then dict_setitem h rd k v else h) ! rd) = dom (h ! rd)"
    and "\<And>k'. k' \<noteq> k \<Longrightarrow>
           ((if (h ! rd) k \<noteq> None then dict_setitem h rd k v else h) ! rd) k' = (h ! rd) k'"
  using assms by (auto simp: dict_setitem_frame)

lemma redact_dict_with_frame:
  assumes "data < length h"
  shows "snd (redact_dict_with flds redact h data) = length h
   \<and> length (fst (redact_dict_with flds redact h data)) = Suc (length h)
   \<and> (\<forall>a < length h. fst (redact_dict_with flds redact h data) ! a = h ! a)
   \<and> dom (fst (redact_dict_with flds redact h data) ! length h) = dom (h ! data)
   \<and> (\<forall>k. k \<notin> set flds \<union> {''ssn'', ''patient_ssn''} \<longrightarrow>
         (fst (redact_dict_with flds redact h data) ! length h) k = (h ! data) k)"
proof -
  let ?rd = "length h"
  define h1 where "h1 = h @ [h ! data]"
  define h2 where "h2 = redact_fields redact flds h1 ?rd"
  define h3 where "h3 = (if (h2 ! ?rd) ''patient_ssn'' \<noteq> None
               then dict_setitem h2 ?rd ''patient_ssn'' (PStr ''[SSN-REDACTED]'')
               else h2)"
  define h4 where "h4 = (if (h3 ! ?rd) ''ssn'' \<noteq> None
               then dict_setitem h3 ?rd ''ssn'' (PStr ''[SSN-REDACTED]'')
               else h3)"
  have res: "redact_dict_with flds redact h data = (h4, ?rd)"
    by (simp add: redact_dict_with_def dict_copy_def Let_def h4_def h3_def h2_def h1_def)
  have f1: "length h1 = Suc ?rd" "h1 ! ?rd = h ! data" "\<And>a. a < ?rd \<Longrightarrow> h1 ! a = h ! a"
    by (simp_all add: nth_append h1_def)
  have f2: "length h2 = Suc ?rd" "\<And>b. b \<noteq> ?rd \<Longrightarrow> h2 ! b = h1 ! b"
    "dom (h2 ! ?rd) = dom (h ! data)"
    "\<And>k. k \<notin> set flds \<Longrightarrow> (h2 ! ?rd) k = (h ! data) k"
    using redact_fields_frame[of redact flds h1 ?rd] f1 unfolding h2_def by auto
  have lt2: "?rd < length h2" using f2(1) by simp
  note f3 = set_present_frame[OF lt2, where k = "''patient_ssn''" and v = "PStr ''[SSN-REDACTED]''",
      folded h3_def]
  have lt3: "?rd < length h3" using f3(1) f2(1) by simp
  note f4 = set_present_frame[OF lt3, where k = "''ssn''" and v = "PStr ''[SSN-REDACTED]''",
      folded h4_def]
  have len: "length h4 = Suc ?rd"
    using f4(1) f3(1) f2(1) by simp
  have old: "\<forall>a < ?rd. h4 ! a = h ! a"
  proof (intro allI impI)
    fix a assume a: "a < ?rd"
    then have "a \<noteq> ?rd" by simp
    then show "h4 ! a = h ! a"
      using f4(2) f3(2) f2(2) f1(3) a by simp
  qed
  have dm: "dom (h4 ! ?rd) = dom (h ! data)"
    using f4(3) f3(3) f2(3) by simp
  have keep: "\<forall>k. k \<notin> set flds \<union> {''ssn'', ''patient_ssn''} \<longrightarrow> (h4 ! ?rd) k = (h ! data) k"
  proof (intro allI impI)
    fix k assume "k \<notin> set flds \<union> {''ssn'', ''patient_ssn''}"
    then have "k \<notin> set flds" "k \<noteq> ''ssn''" "k \<noteq> ''patient_ssn''" by auto
    then show "(h4 ! ?rd) k = (h ! data) k"
      using f4(4) f3(4) f2(4) by simp
  qed
  show ?thesis
    unfolding res using len old dm keep by simp
qed

text \<open>
  Claim C10.  Given a valid reference to a dictionary, \<open>redact_dict\<close> of either class
  returns a reference to a new dictionary and leaves every dictionary already in the
  store, the input among them, as it was.  The new dictionary has the keys of the input,
  and every key other than \<open>voice_note\<close>, \<open>emt_name\<close>, \<open>patient_name\<close>, \<open>notes\<close>,
  \<open>description\<close>, \<open>comment\<close>, \<open>message\<close>, \<open>ssn\<close> and \<open>patient_ssn\<close> maps to the value
  it has in the input.
\<close>

theorem redact_dict_frame:
  assumes "data < length h"
  shows "(let (h', rd) = aparavi_redact_dict h data in
            rd = length h \<and> length h' = Suc (length h)
          \<and> (\<forall>a < length h. h' ! a = h ! a)
          \<and> dom (h' ! rd) = dom (h ! data)
          \<and> (\<forall>k. k \<notin> set redacted_keys \<longrightarrow> (h' ! rd) k = (h ! data) k))
       \<and> (let (h', rd) = pii_redact_dict anonymize h data in
            rd = length h \<and> length h' = Suc (length h)
          \<and> (\<forall>a < length h. h' ! a = h ! a)
          \<and> dom (h' ! rd) = dom (h ! data)
          \<and> (\<forall>k. k \<notin> set redacted_keys \<longrightarrow> (h' ! rd) k = (h ! data) k))"
  using redact_dict_with_frame[OF assms, of "[''voice_note'', ''emt_name'', ''patient_name'', ''notes'', ''description'', ''comment'',
       ''message'']" redact_text]
    redact_dict_with_frame[OF assms, of "[''voice_note'', ''emt_name'', ''patient_name'', ''notes'', ''description'', ''comment'']" "pii_redact_text anonymize"]
  unfolding aparavi_redact_dict_def pii_redact_dict_def redacted_keys_def
  by (simp add: split_beta del: set_simps list.set) (auto)

theorem redact_dict_frame_witness:
  "fst (aparavi_redact_dict
          [[''voice_note'' \<mapsto> PStr ''Call 555-123-4567'', ''ssn'' \<mapsto> PStr ''123-45-6789'',
            ''heart_rate'' \<mapsto> PInt 80]] 0) ! 0
     = [''voice_note'' \<mapsto> PStr ''Call 555-123-4567'', ''ssn'' \<mapsto> PStr ''123-45-6789'',
        ''heart_rate'' \<mapsto> PInt 80]
   \<and> (fst (aparavi_redact_dict
          [[''voice_note'' \<mapsto> PStr ''Call 555-123-4567'', ''ssn'' \<mapsto> PStr ''123-45-6789'',
            ''heart_rate'' \<mapsto> PInt 80]] 0) ! 1) ''heart_rate'' = Some (PInt 80)
   \<and> fst (pii_redact_dict id
          [[''voice_note'' \<mapsto> PStr ''Call 555-123-4567'', ''ssn'' \<mapsto> PStr ''123-45-6789'',
            ''heart_rate'' \<mapsto> PInt 80]] 0) ! 0
     = [''voice_note'' \<mapsto> PStr ''Call 555-123-4567'', ''ssn'' \<mapsto> PStr ''123-45-6789'',
        ''heart_rate'' \<mapsto> PInt 80]"
proof -
  let ?d = "[''voice_note'' \<mapsto> PStr ''Call 555-123-4567'', ''ssn'' \<mapsto> PStr ''123-45-6789'',
             ''heart_rate'' \<mapsto> PInt 80]"
  have valid: "0 < length [?d]"
    by simp
  have hr: "''heart_rate'' \<notin> set redacted_keys"
    by (simp add: redacted_keys_def)
  note frame = redact_dict_frame [OF valid, of id, unfolded split_beta Let_def]
  from frame have rd: "snd (aparavi_redact_dict [?d] 0) = length [?d]"
    and old: "\<forall>a < length [?d]. fst (aparavi_redact_dict [?d] 0) ! a = [?d] ! a"
    and keep: "\<forall>k. k \<notin> set redacted_keys \<longrightarrow>
           (fst (aparavi_redact_dict [?d] 0) ! snd (aparavi_redact_dict [?d] 0)) k = ([?d] ! 0) k"
    and old': "\<forall>a < length [?d]. fst (pii_redact_dict id [?d] 0) ! a = [?d] ! a"
    by blast+
  from old have 1: "fst (aparavi_redact_dict [?d] 0) ! 0 = ?d"
    by simp
  from keep hr rd have 2: "(fst (aparavi_redact_dict [?d] 0) ! 1) ''heart_rate'' = Some (PInt 80)"
    by simp
  from old' have 3: "fst (pii_redact_dict id [?d] 0) ! 0 = ?d"
    by simp
  from 1 2 3 show ?thesis
    by blast
qed

end
